theory Spec2Isabelle
  imports Main
begin

section \<open>The wazuh-server supervisor script\<close>

text \<open>
  A shallow embedding of \<^verbatim>\<open>framework/scripts/wazuh_server.py\<close>.  The script is a process
  supervisor: everything it does is a call to the outside (the logger, \<^verbatim>\<open>subprocess\<close>,
  \<^verbatim>\<open>os.kill\<close>, the pid-file module, the asyncio loop).  The model therefore threads a
  \<open>world\<close> through every function: the trace of outside calls made so far, the pid-file
  store and the set of live processes.  What the outside answers is an input, the \<open>env\<close>.

  A function of the script returns an \<open>outcome\<close>: it returns normally, it raises, or it
  never comes back (a polling loop whose condition never turns, an \<^verbatim>\<open>await\<close> that never
  completes).
\<close>

subsection \<open>Exceptions and outcomes\<close>

datatype exn =
    WazuhDaemonError string
  | PyException string
  | KeyError string
  | StopIteration
  | MemoryError
  | FileNotFoundError string
  | PermissionError string
  | ProcessLookupError
  | KeyboardInterrupt
  | CancelledError
  | SystemExit int



datatype 'a outcome = Return 'a | Raise exn | Hang

subsection \<open>Decimal formatting of numbers in f-strings\<close>

definition digit :: "nat \<Rightarrow> char" where
  "digit n = ''0123456789'' ! (n mod 10)"

fun str_nat :: "nat \<Rightarrow> string" where
  "str_nat n = (if n < 10 then [digit n] else str_nat (n div 10) @ [digit n])"

declare str_nat.simps [simp del]

definition str_int :: "int \<Rightarrow> string" where
  "str_int i = (if i < 0 then CHR ''-'' # str_nat (nat (- i)) else str_nat (nat i))"

subsection \<open>The outside world\<close>

datatype level = Info | Warning | Error

datatype event =
    Log level string
  | Print string
  | Popen "string list"
  | CreatePid string nat
  | DeletePid string nat
  | DeleteChildPids string nat
  | Kill nat
  | Sleep nat
  | Ping
  | ContextTag string
  | StartUnixServer string
  | NewPool
  | PoolMap
  | NewMaster
  | NewLocalServerMaster
  | NewWorker
  | NewLocalServerWorker
  | Gather
  | Setup string
  | Call string

record world =
  trace :: "event list"
  pid_files :: "(string \<times> nat) list"
  alive :: "nat list"

definition emit :: "event \<Rightarrow> world \<Rightarrow> world" where
  "emit ev w = w\<lparr>trace := trace w @ [ev]\<rparr>"

definition info :: "string \<Rightarrow> world \<Rightarrow> world" where
  "info msg w = emit (Log Info msg) w"

definition warning :: "string \<Rightarrow> world \<Rightarrow> world" where
  "warning msg w = emit (Log Warning msg) w"


text \<open>
  What \<^verbatim>\<open>subprocess.Popen(args)\<close> followed by \<^verbatim>\<open>p.wait(timeout=2)\<close> does: the spawn or the
  wait raises a subclass of \<^verbatim>\<open>Exception\<close> (\<open>SpawnError\<close>, with its \<^verbatim>\<open>str\<close>), the process
  exits within the two seconds with a return code, or \<^verbatim>\<open>TimeoutExpired\<close> is raised because
  the process is still running.  Both calls are synchronous, so neither raises
  \<^verbatim>\<open>asyncio.CancelledError\<close>; an operator interrupt is modelled at the \<^verbatim>\<open>await\<close>.
\<close>

datatype popen_outcome =
    SpawnError string
  | Exited nat int
  | StillRunning nat

datatype await_outcome = Completes | Fails exn

datatype NodeType = MASTER | WORKER

record server_config =
  node_type :: NodeType
  connection_retry :: nat

text \<open>
  The inputs of a run.  \<open>pings\<close> lists the answers of the successive calls of
  \<^verbatim>\<open>ping_unix_socket\<close>, after which the socket never answers; \<open>awaits\<close> lists how the
  successive \<^verbatim>\<open>await asyncio.gather(*tasks)\<close> end, after which the await never completes;
  \<open>ticks\<close> lists the pid-file store and the live processes as they are after each
  \<^verbatim>\<open>time.sleep(1)\<close> of the shutdown poll, after which nothing changes any more.
\<close>

record env =
  WAZUH_SHARE :: string
  debug_mode :: int
  root :: bool
  popen :: "string list \<Rightarrow> popen_outcome"
  pool_error :: "exn option"
  master_task_pool :: bool
  get_server_config :: "exn + server_config"
  getpid :: nat
  keypair_exists :: bool
  pings :: "bool list"
  awaits :: "await_outcome list"
  ticks :: "((string \<times> nat) list \<times> nat list) list"

subsection \<open>Constants of the script\<close>


abbreviation COMMS_API_DAEMON_NAME :: string where
  "COMMS_API_DAEMON_NAME \<equiv> ''wazuh-comms-apid''"

abbreviation ENGINE_DAEMON_NAME :: string where
  "ENGINE_DAEMON_NAME \<equiv> ''wazuh-engined''"

abbreviation MANAGEMENT_API_DAEMON_NAME :: string where
  "MANAGEMENT_API_DAEMON_NAME \<equiv> ''wazuh-apid''"

definition COMMS_API_SCRIPT_PATH :: "env \<Rightarrow> string" where
  "COMMS_API_SCRIPT_PATH e = WAZUH_SHARE e @ ''/apis/scripts/wazuh_comms_apid.py''"

definition EMBEDDED_PYTHON_PATH :: "env \<Rightarrow> string" where
  "EMBEDDED_PYTHON_PATH e = WAZUH_SHARE e @ ''/framework/python/bin/python3''"

definition ENGINE_BINARY_PATH :: "env \<Rightarrow> string" where
  "ENGINE_BINARY_PATH e = WAZUH_SHARE e @ ''/bin/wazuh-engine''"

definition MANAGEMENT_API_SCRIPT_PATH :: "env \<Rightarrow> string" where
  "MANAGEMENT_API_SCRIPT_PATH e = WAZUH_SHARE e @ ''/api/scripts/wazuh_apid.py''"

subsection \<open>The pid-file module and the operating system\<close>

text \<open>
  Modelled from the spec: \<^verbatim>\<open>pyDaemonModule.create_pid\<close> is not part of the script.  The
  lifecycle record store is keyed by daemon name and maps it to a process id;
  \<open>create(name, pid)\<close> writes the record of \<open>name\<close>.
\<close>

definition create_pid :: "string \<Rightarrow> nat \<Rightarrow> world \<Rightarrow> world" where
  "create_pid name pid w =
     (emit (CreatePid name pid) w)
       \<lparr>pid_files := (name, pid) # filter (\<lambda>r. fst r \<noteq> name) (pid_files w)\<rparr>"



subsection \<open>Starting the daemons\<close>

definition start_daemon :: "env \<Rightarrow> string \<Rightarrow> string list \<Rightarrow> world \<Rightarrow> unit outcome \<times> world" where
  "start_daemon e name args w =
     (let w1 = emit (Popen args) (info (''Starting '' @ name) w) in
      case popen e args of
        SpawnError m \<Rightarrow>
          (Raise (WazuhDaemonError (''Error starting '' @ name @ '': '' @ m)), w1)
      | Exited pid returncode \<Rightarrow>
          if returncode \<noteq> 0
          then (Raise (WazuhDaemonError
                  (''Error starting '' @ name @ '': '' @ ''return code '' @ str_int returncode)), w1)
          else (Return (), w1)
      | StillRunning pid \<Rightarrow>
          (let w2 = w1\<lparr>alive := pid # alive w1\<rparr>;
               w3 = (if name = ENGINE_DAEMON_NAME then create_pid ENGINE_DAEMON_NAME pid w2 else w2)
           in (Return (), info (''Started '' @ name @ '' (pid: '' @ str_nat pid @ '')'') w3)))"

definition engine_log_level :: "int \<Rightarrow> string option" where
  "engine_log_level d =
     (if d = 0 then Some ''info'' else if d = 1 then Some ''debug''
      else if d = 2 then Some ''trace'' else None)"

definition daemons :: "env \<Rightarrow> bool \<Rightarrow> string \<Rightarrow> (string \<times> string list) list" where
  "daemons e rt lvl =
     [(ENGINE_DAEMON_NAME, [ENGINE_BINARY_PATH e, ''server'', ''-l'', lvl, ''start'']),
      (COMMS_API_DAEMON_NAME,
         [EMBEDDED_PYTHON_PATH e, COMMS_API_SCRIPT_PATH e] @ (if rt then [''-r''] else [])),
      (MANAGEMENT_API_DAEMON_NAME,
         [EMBEDDED_PYTHON_PATH e, MANAGEMENT_API_SCRIPT_PATH e] @ (if rt then [''-r''] else []))]"

text \<open>The \<^verbatim>\<open>for name, args in daemons.items()\<close> loop; a dict iterates in insertion order.\<close>

fun start_each :: "env \<Rightarrow> (string \<times> string list) list \<Rightarrow> world \<Rightarrow> unit outcome \<times> world" where
  "start_each e [] w = (Return (), w)"
| "start_each e ((name, args) # ds) w =
     (case start_daemon e name args w of
        (Return u, w') \<Rightarrow> start_each e ds w'
      | (Raise x, w') \<Rightarrow> (Raise x, w')
      | (Hang, w') \<Rightarrow> (Hang, w'))"

text \<open>
  The trace records the entry into \<^verbatim>\<open>start_daemons\<close> (and into \<^verbatim>\<open>shutdown_server\<close>
  below) as a \<open>Call\<close> event, so that invocations can be counted.
\<close>

definition start_daemons :: "env \<Rightarrow> bool \<Rightarrow> world \<Rightarrow> unit outcome \<times> world" where
  "start_daemons e rt w =
     (let w0 = emit (Call ''start_daemons'') w in
      case engine_log_level (debug_mode e) of
        None \<Rightarrow> (Raise (KeyError (str_int (debug_mode e))), w0)
      | Some lvl \<Rightarrow> start_each e (daemons e rt lvl) w0)"

subsection \<open>Shutting the daemons down\<close>








subsection \<open>The two node roles\<close>

text \<open>
  The \<^verbatim>\<open>while not ping_unix_socket(CONFIG_SERVER_SOCKET_PATH)\<close> loop that both roles run
  before anything else.
\<close>

fun wait_config_server :: "bool list \<Rightarrow> world \<Rightarrow> unit outcome \<times> world" where
  "wait_config_server [] w = (Hang, w)"
| "wait_config_server (p # ps) w =
     (if p then (Return (), emit Ping w)
      else wait_config_server ps
             (emit (Sleep 1)
                (info ''Configuration server is not available, retrying...'' (emit Ping w))))"

text \<open>\<^verbatim>\<open>await asyncio.gather(*tasks)\<close>, answered by the head of the script.\<close>

definition gather :: "await_outcome list \<Rightarrow> world \<Rightarrow> unit outcome \<times> world" where
  "gather aws w =
     (case aws of
        [] \<Rightarrow> (Hang, emit Gather w)
      | Completes # rest \<Rightarrow> (Return (), emit Gather w)
      | Fails x # rest \<Rightarrow> (Raise x, emit Gather w))"


text \<open>
  The body of the \<^verbatim>\<open>try\<close> block of one iteration of the worker's \<^verbatim>\<open>while True\<close> loop:
  the daemons are started when \<open>daemons_initialized\<close> is still false, then the two tasks
  are awaited.  The result carries the new value of the flag and what is left of the
  script of awaits.
\<close>

definition worker_try ::
  "env \<Rightarrow> await_outcome list \<Rightarrow> bool \<Rightarrow> world \<Rightarrow>
     (unit outcome \<times> world) \<times> bool \<times> await_outcome list" where
  "worker_try e aws daemons_initialized w =
     (if \<not> daemons_initialized
      then (case start_daemons e (root e) w of
              (Return u, w1) \<Rightarrow> (gather aws w1, True, tl aws)
            | (Raise x, w1) \<Rightarrow> ((Raise x, w1), False, aws)
            | (Hang, w1) \<Rightarrow> ((Hang, w1), False, aws))
      else (gather aws w, True, tl aws))"

text \<open>
  The \<^verbatim>\<open>while True\<close> loop of \<^verbatim>\<open>worker_main\<close>.  \<open>has_pool\<close> says whether \<^verbatim>\<open>task_pool\<close> is
  not \<^verbatim>\<open>None\<close>.  When the await completes without an exception the loop goes round again,
  as the source does.
\<close>

function worker_loop ::
  "env \<Rightarrow> server_config \<Rightarrow> bool \<Rightarrow> await_outcome list \<Rightarrow> bool \<Rightarrow> world \<Rightarrow> unit outcome \<times> world" where
  "worker_loop e cfg has_pool aws daemons_initialized w =
     (let w1 = emit NewLocalServerWorker (emit NewWorker w);
          w2 = (if has_pool then emit PoolMap w1 else w1)
      in case worker_try e aws daemons_initialized w2 of
           ((Return u, w3), di, rest) \<Rightarrow> worker_loop e cfg has_pool rest di w3
         | ((Raise x, w3), di, rest) \<Rightarrow>
             if x = CancelledError
             then worker_loop e cfg has_pool rest di
                    (emit (Sleep (connection_retry cfg))
                       (info ''Connection with server has been lost. Reconnecting in 10 seconds.'' w3))
             else (Raise x, w3)
         | ((Hang, w3), di, rest) \<Rightarrow> (Hang, w3))"
  by pat_completeness auto
termination
proof -
  have daemon: "fst (start_daemon e name args w) \<noteq> Raise CancelledError" for e name args w
    by (simp add: start_daemon_def Let_def split: popen_outcome.splits)
  have each: "fst (start_each e ds w) \<noteq> Raise CancelledError" for e ds w
  proof (induction ds arbitrary: w)
    case Nil
    show ?case by simp
  next
    case (Cons d ds)
    obtain name args where d: "d = (name, args)" by (cases d)
    obtain r w' where s: "start_daemon e name args w = (r, w')"
      by (cases "start_daemon e name args w")
    from daemon [of e name args w] s have "r \<noteq> Raise CancelledError" by simp
    with d s Cons.IH [of w'] show ?case by (cases r) simp_all
  qed
  have all: "fst (start_daemons e rt w) \<noteq> Raise CancelledError" for e rt w
    using each by (simp add: start_daemons_def Let_def split: option.splits)
  have awaited: "length (tl aws) < length aws" if "fst (gather aws w) \<noteq> Hang" for aws w
    using that by (cases aws) (simp_all add: gather_def)
  have consumed: "length rest < length aws"
    if "worker_try e aws di w = ((r, w'), di', rest)"
      and "r = Return u \<or> r = Raise CancelledError" for e aws di w r w' di' rest u
  proof (cases di)
    case True
    with that have "gather aws w = (r, w')" and "rest = tl aws"
      by (simp_all add: worker_try_def)
    with that(2) awaited [of aws w] show ?thesis by auto
  next
    case False
    obtain r1 w1 where sd: "start_daemons e (root e) w = (r1, w1)"
      by (cases "start_daemons e (root e) w")
    from all [of e "root e" w] sd have ne: "r1 \<noteq> Raise CancelledError" by simp
    show ?thesis
    proof (cases r1)
      case (Return v)
      with False sd that have "gather aws w1 = (r, w')" and "rest = tl aws"
        by (simp_all add: worker_try_def)
      with that(2) awaited [of aws w1] show ?thesis by auto
    next
      case (Raise x)
      with False sd that ne show ?thesis by (auto simp: worker_try_def)
    next
      case Hang
      with False sd that show ?thesis by (auto simp: worker_try_def)
    qed
  qed
  show ?thesis
  proof (relation "measure (\<lambda>(e, cfg, has_pool, aws, di, w). length aws)", goal_cases)
    case 1
    show ?case by simp
  next
    case (2 e cfg has_pool aws di w x xa xb y xc ya x1 xd yb)
    then have "worker_try e aws di xa = ((Return x1, ya), xd, yb)" by simp
    from consumed [OF this] show ?case by simp
  next
    case (3 e cfg has_pool aws di w x xa xb y xc ya x2 xd yb)
    then have "worker_try e aws di xa = ((Raise CancelledError, ya), xd, yb)" by simp
    from consumed [OF this] show ?case by simp
  qed
qed

declare worker_loop.simps [simp del]

definition worker_main :: "env \<Rightarrow> server_config \<Rightarrow> world \<Rightarrow> unit outcome \<times> world" where
  "worker_main e cfg w =
     (case wait_config_server (pings e)
             (emit (StartUnixServer ''Worker'') (emit (ContextTag ''Worker'') w)) of
        (Return u, w1) \<Rightarrow>
          (case pool_error e of
             None \<Rightarrow> worker_loop e cfg True (awaits e) False (emit NewPool w1)
           | Some x \<Rightarrow>
               if (\<exists>m. x = FileNotFoundError m) \<or> (\<exists>m. x = PermissionError m)
               then worker_loop e cfg False (awaits e) False
                      (warning ''The Wazuh cluster will be run without the improvements added in Wazuh 4.3.0 and higher versions.''
                         (warning ''In order to take advantage of Wazuh 4.3.0 cluster improvements, the directory '/dev/shm' must be accessible by the 'wazuh' user. Check that this file has permissions to be accessed by all users. Changing the file permissions to 777 will solve this issue.''
                            (emit NewPool w1)))
               else (Raise x, emit NewPool w1))
      | (Raise x, w1) \<Rightarrow> (Raise x, w1)
      | (Hang, w1) \<Rightarrow> (Hang, w1))"

subsection \<open>The subcommands\<close>













subsection \<open>Reading a trace\<close>

text \<open>The names of the functions entered, in order.\<close>

fun called :: "event \<Rightarrow> string list" where
  "called (Call f) = [f]"
| "called ev = []"

definition calls :: "event list \<Rightarrow> string list" where
  "calls tr = concat (map called tr)"

text \<open>The argument lists given to \<^verbatim>\<open>subprocess.Popen\<close>, in order.\<close>

fun spawned :: "event \<Rightarrow> string list list" where
  "spawned (Popen args) = [args]"
| "spawned ev = []"

definition launched :: "event list \<Rightarrow> string list list" where
  "launched tr = concat (map spawned tr)"

text \<open>The process ids given to \<^verbatim>\<open>os.kill\<close>, in order.\<close>

fun signalled :: "event \<Rightarrow> nat list" where
  "signalled (Kill pid) = [pid]"
| "signalled ev = []"

definition kills :: "event list \<Rightarrow> nat list" where
  "kills tr = concat (map signalled tr)"

text \<open>The durations slept, in order.\<close>

fun slept :: "event \<Rightarrow> nat list" where
  "slept (Sleep n) = [n]"
| "slept ev = []"

definition sleeps :: "event list \<Rightarrow> nat list" where
  "sleeps tr = concat (map slept tr)"

text \<open>
  A launch has failed when the spawn raised or the process exited within the window with
  a code other than 0; \<open>failure_text\<close> is what the error message then says after the name.
\<close>

fun failed :: "popen_outcome \<Rightarrow> bool" where
  "failed (SpawnError m) = True"
| "failed (Exited pid returncode) = (returncode \<noteq> 0)"
| "failed (StillRunning pid) = False"

fun failure_text :: "popen_outcome \<Rightarrow> string" where
  "failure_text (SpawnError m) = m"
| "failure_text (Exited pid returncode) = ''return code '' @ str_int returncode"
| "failure_text (StillRunning pid) = []"


text \<open>
  Reading the script of awaits: the connection losses before the first other failure,
  that failure, and the number of iterations the loop makes.
\<close>

fun retries :: "await_outcome list \<Rightarrow> nat" where
  "retries [] = 0"
| "retries (Completes # aws) = retries aws"
| "retries (Fails x # aws) = (if x = CancelledError then Suc (retries aws) else 0)"

fun fatal :: "await_outcome list \<Rightarrow> exn option" where
  "fatal [] = None"
| "fatal (Completes # aws) = fatal aws"
| "fatal (Fails x # aws) = (if x = CancelledError then fatal aws else Some x)"

fun rounds :: "await_outcome list \<Rightarrow> nat" where
  "rounds [] = 1"
| "rounds (Completes # aws) = Suc (rounds aws)"
| "rounds (Fails x # aws) = (if x = CancelledError then Suc (rounds aws) else 1)"

text \<open>
  What one pass of the worker's loop does before it awaits, and the events of the whole
  loop once the daemons have been initialised, read off the script of awaits.
\<close>

definition iteration_events :: "bool \<Rightarrow> event list" where
  "iteration_events has_pool =
     [NewWorker, NewLocalServerWorker] @ (if has_pool then [PoolMap] else [])"

fun loop_events :: "server_config \<Rightarrow> bool \<Rightarrow> await_outcome list \<Rightarrow> event list" where
  "loop_events cfg has_pool [] = iteration_events has_pool @ [Gather]"
| "loop_events cfg has_pool (Completes # aws) =
     iteration_events has_pool @ [Gather] @ loop_events cfg has_pool aws"
| "loop_events cfg has_pool (Fails x # aws) =
     iteration_events has_pool @ [Gather] @
     (if x = CancelledError
      then [Log Info ''Connection with server has been lost. Reconnecting in 10 seconds.'',
            Sleep (connection_retry cfg)] @ loop_events cfg has_pool aws
      else [])"

subsection \<open>Concrete runs\<close>

definition share :: string where
  "share = ''/usr/share/wazuh-server''"

definition empty_world :: world where
  "empty_world = \<lparr>trace = [], pid_files = [], alive = []\<rparr>"

definition worker_config :: server_config where
  "worker_config = \<lparr>node_type = WORKER, connection_retry = 10\<rparr>"

text \<open>An environment in which every daemon is still running after the grace window.\<close>

definition good_env :: env where
  "good_env =
     \<lparr>WAZUH_SHARE = share, debug_mode = 0, root = False,
      popen = (\<lambda>args. StillRunning (100 + length (concat args))),
      pool_error = None, master_task_pool = False,
      get_server_config = Inr worker_config, getpid = 50, keypair_exists = True,
      pings = [True, True, True], awaits = [], ticks = []\<rparr>"




section \<open>Properties\<close>

subsection \<open>Traces and stores\<close>

lemma trace_emit: "trace (emit ev w) = trace w @ [ev]"
  by (simp add: emit_def)

lemma pid_files_emit: "pid_files (emit ev w) = pid_files w"
  by (simp add: emit_def)

lemma alive_emit: "alive (emit ev w) = alive w"
  by (simp add: emit_def)

lemma launched_append: "launched (xs @ ys) = launched xs @ launched ys"
  by (simp add: launched_def)

lemma calls_append: "calls (xs @ ys) = calls xs @ calls ys"
  by (simp add: calls_def)

lemma kills_append: "kills (xs @ ys) = kills xs @ kills ys"
  by (simp add: kills_def)

lemma sleeps_append: "sleeps (xs @ ys) = sleeps xs @ sleeps ys"
  by (simp add: sleeps_def)

lemma start_daemon_trace:
  "trace (snd (start_daemon e name args w)) =
     trace w @ [Log Info (''Starting '' @ name), Popen args] @
     (case popen e args of
        StillRunning pid \<Rightarrow>
          (if name = ENGINE_DAEMON_NAME then [CreatePid ENGINE_DAEMON_NAME pid] else []) @
          [Log Info (''Started '' @ name @ '' (pid: '' @ str_nat pid @ '')'')]
      | _ \<Rightarrow> [])"
  by (simp add: start_daemon_def Let_def info_def emit_def create_pid_def split: popen_outcome.splits)

text \<open>
  Claim C6.  For every daemon launch: when the subprocess is still running at the end of
  the two-second window, \<^verbatim>\<open>start_daemon\<close> returns normally with the pid known, it logs the
  start and the success with that pid, and it writes a pid record exactly when the daemon
  is the engine; when the subprocess exits within the window with a code other than 0,
  \<^verbatim>\<open>start_daemon\<close> raises \<^verbatim>\<open>WazuhDaemonError\<close> whose message names the daemon and carries the
  return code, and no record is written.
\<close>

theorem start_daemon_classifies:
  "(popen e args = StillRunning pid \<longrightarrow>
      fst (start_daemon e name args w) = Return () \<and>
      trace (snd (start_daemon e name args w)) =
        trace w @ [Log Info (''Starting '' @ name), Popen args] @
        (if name = ENGINE_DAEMON_NAME then [CreatePid ENGINE_DAEMON_NAME pid] else []) @
        [Log Info (''Started '' @ name @ '' (pid: '' @ str_nat pid @ '')'')] \<and>
      pid_files (snd (start_daemon e name args w)) =
        (if name = ENGINE_DAEMON_NAME
         then (ENGINE_DAEMON_NAME, pid) # filter (\<lambda>r. fst r \<noteq> ENGINE_DAEMON_NAME) (pid_files w)
         else pid_files w)) \<and>
   (popen e args = Exited pid returncode \<and> returncode \<noteq> 0 \<longrightarrow>
      fst (start_daemon e name args w) =
        Raise (WazuhDaemonError
                 (''Error starting '' @ name @ '': return code '' @ str_int returncode)) \<and>
      trace (snd (start_daemon e name args w)) =
        trace w @ [Log Info (''Starting '' @ name), Popen args] \<and>
      pid_files (snd (start_daemon e name args w)) = pid_files w)"
  by (simp add: start_daemon_def Let_def info_def emit_def create_pid_def)

text \<open>
  Claim C10.  When the subprocess exits with status 0 within the window, \<^verbatim>\<open>start_daemon\<close>
  returns normally: no error, no pid record (also for the engine), and no
  "Started ... (pid: ...)" line; the only effects are the "Starting" line and the spawn.
\<close>

theorem start_daemon_exit_zero:
  "popen e args = Exited pid 0 \<Longrightarrow>
   start_daemon e name args w =
     (Return (), w\<lparr>trace := trace w @ [Log Info (''Starting '' @ name), Popen args]\<rparr>)"
  by (simp add: start_daemon_def Let_def info_def emit_def)

lemma start_daemon_fst:
  "fst (start_daemon e name args w) =
     (if failed (popen e args)
      then Raise (WazuhDaemonError (''Error starting '' @ name @ '': '' @ failure_text (popen e args)))
      else Return ())"
  by (simp add: start_daemon_def Let_def split: popen_outcome.splits)

lemma start_daemon_launched:
  "launched (trace (snd (start_daemon e name args w))) = launched (trace w) @ [args]"
  by (simp add: start_daemon_def Let_def info_def emit_def create_pid_def launched_def
      split: popen_outcome.splits)

lemma start_each_all_started:
  "\<forall>d \<in> set ds. \<not> failed (popen e (snd d)) \<Longrightarrow>
   fst (start_each e ds w) = Return () \<and>
   launched (trace (snd (start_each e ds w))) = launched (trace w) @ map snd ds"
proof (induction ds arbitrary: w)
  case Nil
  show ?case by simp
next
  case (Cons d ds)
  obtain name args where d: "d = (name, args)" by (cases d)
  obtain r w' where s: "start_daemon e name args w = (r, w')"
    by (cases "start_daemon e name args w")
  from Cons.prems d have ok: "\<not> failed (popen e args)" by simp
  with start_daemon_fst [of e name args w] s have r: "r = Return ()" by simp
  from start_daemon_launched [of e name args w] s
  have l: "launched (trace w') = launched (trace w) @ [args]" by simp
  from Cons.prems have "\<forall>d \<in> set ds. \<not> failed (popen e (snd d))" by simp
  from Cons.IH [OF this, of w'] d s r l show ?case by simp
qed

lemma start_each_first_failure:
  "i < length ds \<Longrightarrow> failed (popen e (snd (ds ! i))) \<Longrightarrow>
   \<forall>j < i. \<not> failed (popen e (snd (ds ! j))) \<Longrightarrow>
   fst (start_each e ds w) =
     Raise (WazuhDaemonError
              (''Error starting '' @ fst (ds ! i) @ '': '' @ failure_text (popen e (snd (ds ! i))))) \<and>
   launched (trace (snd (start_each e ds w))) = launched (trace w) @ map snd (take (Suc i) ds)"
proof (induction ds arbitrary: i w)
  case Nil
  then show ?case by simp
next
  case (Cons d ds)
  obtain name args where d: "d = (name, args)" by (cases d)
  obtain r w' where s: "start_daemon e name args w = (r, w')"
    by (cases "start_daemon e name args w")
  from start_daemon_launched [of e name args w] s
  have l: "launched (trace w') = launched (trace w) @ [args]" by simp
  show ?case
  proof (cases i)
    case 0
    with Cons.prems d have "failed (popen e args)" by simp
    with start_daemon_fst [of e name args w] s
    have "r = Raise (WazuhDaemonError (''Error starting '' @ name @ '': '' @ failure_text (popen e args)))"
      by simp
    with 0 d s l show ?thesis by simp
  next
    case (Suc k)
    with Cons.prems d have "\<not> failed (popen e args)" by auto
    with start_daemon_fst [of e name args w] s have r: "r = Return ()" by simp
    from Suc Cons.prems have k: "k < length ds" "failed (popen e (snd (ds ! k)))" by simp_all
    from Suc Cons.prems have "\<forall>j < k. \<not> failed (popen e (snd (ds ! j)))" by auto
    from Cons.IH [OF k this, of w'] Suc d s r l show ?thesis by simp
  qed
qed

text \<open>
  Claim C1.  \<^verbatim>\<open>start_daemons\<close> attempts the daemons in the order engine, communications
  API, management API.  When the launch of daemon \<open>i\<close> fails (and so those before it did
  not), \<^verbatim>\<open>WazuhDaemonError\<close> naming that daemon is raised and the spawns made are exactly
  those of the daemons up to \<open>i\<close>: none after it is launched.  When no launch fails, all
  three are spawned in that order.
\<close>

theorem start_daemons_order:
  assumes "engine_log_level (debug_mode e) = Some lvl"
  shows "map fst (daemons e rt lvl) =
           [ENGINE_DAEMON_NAME, COMMS_API_DAEMON_NAME, MANAGEMENT_API_DAEMON_NAME] \<and>
         (\<forall>i < 3.
            failed (popen e (snd (daemons e rt lvl ! i))) \<and>
            (\<forall>j < i. \<not> failed (popen e (snd (daemons e rt lvl ! j)))) \<longrightarrow>
            fst (start_daemons e rt w) =
              Raise (WazuhDaemonError
                       (''Error starting '' @ fst (daemons e rt lvl ! i) @ '': '' @
                        failure_text (popen e (snd (daemons e rt lvl ! i))))) \<and>
            launched (trace (snd (start_daemons e rt w))) =
              launched (trace w) @ map snd (take (Suc i) (daemons e rt lvl))) \<and>
         ((\<forall>j < 3. \<not> failed (popen e (snd (daemons e rt lvl ! j)))) \<longrightarrow>
            fst (start_daemons e rt w) = Return () \<and>
            launched (trace (snd (start_daemons e rt w))) =
              launched (trace w) @ map snd (daemons e rt lvl))"
proof (intro conjI allI impI)
  show "map fst (daemons e rt lvl) =
          [ENGINE_DAEMON_NAME, COMMS_API_DAEMON_NAME, MANAGEMENT_API_DAEMON_NAME]"
    by (simp add: daemons_def)
next
  have len: "length (daemons e rt lvl) = 3" by (simp add: daemons_def)
  have sd: "start_daemons e rt w = start_each e (daemons e rt lvl) (emit (Call ''start_daemons'') w)"
    using assms by (simp add: start_daemons_def)
  have l0: "launched (trace (emit (Call ''start_daemons'') w)) = launched (trace w)"
    by (simp add: trace_emit launched_def)
  {
    fix i :: nat
    assume i: "i < 3"
      and f: "failed (popen e (snd (daemons e rt lvl ! i))) \<and>
              (\<forall>j < i. \<not> failed (popen e (snd (daemons e rt lvl ! j))))"
    from i len have "i < length (daemons e rt lvl)" by simp
    from start_each_first_failure [OF this, of e "emit (Call ''start_daemons'') w"] f sd l0
    show "fst (start_daemons e rt w) =
              Raise (WazuhDaemonError
                       (''Error starting '' @ fst (daemons e rt lvl ! i) @ '': '' @
                        failure_text (popen e (snd (daemons e rt lvl ! i)))))"
      and "launched (trace (snd (start_daemons e rt w))) =
              launched (trace w) @ map snd (take (Suc i) (daemons e rt lvl))"
      by simp_all
  }
  {
    assume ok: "\<forall>j < 3. \<not> failed (popen e (snd (daemons e rt lvl ! j)))"
    have "\<forall>d \<in> set (daemons e rt lvl). \<not> failed (popen e (snd d))"
    proof
      fix d assume "d \<in> set (daemons e rt lvl)"
      then obtain j where "j < length (daemons e rt lvl)" "daemons e rt lvl ! j = d"
        by (auto simp: in_set_conv_nth)
      with ok len show "\<not> failed (popen e (snd d))" by auto
    qed
    from start_each_all_started [OF this, of "emit (Call ''start_daemons'') w"] sd l0
    show "fst (start_daemons e rt w) = Return ()"
      and "launched (trace (snd (start_daemons e rt w))) =
              launched (trace w) @ map snd (daemons e rt lvl)"
      by simp_all
  }
qed

theorem start_daemon_classifies_witness:
  "popen good_env [''engine''] = StillRunning 106 \<and>
   fst (start_daemon good_env ENGINE_DAEMON_NAME [''engine''] empty_world) = Return () \<and>
   pid_files (snd (start_daemon good_env ENGINE_DAEMON_NAME [''engine''] empty_world)) =
     [(ENGINE_DAEMON_NAME, 106)] \<and>
   popen (good_env\<lparr>popen := (\<lambda>args. Exited 7 3)\<rparr>) [''engine''] = Exited 7 3 \<and> (3::int) \<noteq> 0 \<and>
   fst (start_daemon (good_env\<lparr>popen := (\<lambda>args. Exited 7 3)\<rparr>) ENGINE_DAEMON_NAME [''engine'']
          empty_world) =
     Raise (WazuhDaemonError ''Error starting wazuh-engined: return code 3'')"
proof -
  have p1: "popen good_env [''engine''] = StillRunning 106"
    by (simp add: good_env_def)
  have p2: "popen (good_env\<lparr>popen := (\<lambda>args. Exited 7 3)\<rparr>) [''engine''] = Exited 7 3 \<and> (3::int) \<noteq> 0"
    by simp
  have s3: "str_int 3 = ''3''"
    by (simp add: str_int_def str_nat.simps digit_def)
  from start_daemon_classifies [where e = good_env and args = "[''engine'']" and pid = 106
      and name = ENGINE_DAEMON_NAME and w = empty_world, THEN conjunct1, rule_format, OF p1]
    start_daemon_classifies [where e = "good_env\<lparr>popen := (\<lambda>args. Exited 7 3)\<rparr>"
      and args = "[''engine'']" and pid = 7 and returncode = 3
      and name = ENGINE_DAEMON_NAME and w = empty_world, THEN conjunct2, rule_format, OF p2]
    p1 p2 s3
  show ?thesis by (simp add: empty_world_def)
qed

theorem start_daemon_exit_zero_witness:
  "popen (good_env\<lparr>popen := (\<lambda>args. Exited 7 0)\<rparr>) [''engine''] = Exited 7 0 \<and>
   start_daemon (good_env\<lparr>popen := (\<lambda>args. Exited 7 0)\<rparr>) ENGINE_DAEMON_NAME [''engine''] empty_world =
     (Return (),
      \<lparr>trace = [Log Info ''Starting wazuh-engined'', Popen [''engine'']], pid_files = [], alive = []\<rparr>)"
proof -
  have p: "popen (good_env\<lparr>popen := (\<lambda>args. Exited 7 0)\<rparr>) [''engine''] = Exited 7 0"
    by simp
  from start_daemon_exit_zero [OF p, of ENGINE_DAEMON_NAME empty_world] p
  show ?thesis by (simp add: empty_world_def)
qed

theorem start_daemons_order_witness:
  "engine_log_level
     (debug_mode (good_env\<lparr>popen := (\<lambda>args. if length args = 2 then Exited 7 3 else StillRunning 9)\<rparr>)) =
     Some ''info'' \<and>
   fst (start_daemons
          (good_env\<lparr>popen := (\<lambda>args. if length args = 2 then Exited 7 3 else StillRunning 9)\<rparr>)
          False empty_world) =
     Raise (WazuhDaemonError ''Error starting wazuh-comms-apid: return code 3'') \<and>
   launched (trace (snd (start_daemons
          (good_env\<lparr>popen := (\<lambda>args. if length args = 2 then Exited 7 3 else StillRunning 9)\<rparr>)
          False empty_world))) =
     [[''/usr/share/wazuh-server/bin/wazuh-engine'', ''server'', ''-l'', ''info'', ''start''],
      [''/usr/share/wazuh-server/framework/python/bin/python3'',
       ''/usr/share/wazuh-server/apis/scripts/wazuh_comms_apid.py'']]"
proof -
  let ?e = "good_env\<lparr>popen := (\<lambda>args. if length args = 2 then Exited 7 3 else StillRunning 9)\<rparr>"
  have lvl: "engine_log_level (debug_mode ?e) = Some ''info''"
    by (simp add: good_env_def engine_log_level_def)
  have ds: "daemons ?e False ''info'' =
     [(ENGINE_DAEMON_NAME,
       [''/usr/share/wazuh-server/bin/wazuh-engine'', ''server'', ''-l'', ''info'', ''start'']),
      (COMMS_API_DAEMON_NAME,
       [''/usr/share/wazuh-server/framework/python/bin/python3'',
        ''/usr/share/wazuh-server/apis/scripts/wazuh_comms_apid.py'']),
      (MANAGEMENT_API_DAEMON_NAME,
       [''/usr/share/wazuh-server/framework/python/bin/python3'',
        ''/usr/share/wazuh-server/api/scripts/wazuh_apid.py''])]"
    by (simp add: daemons_def good_env_def share_def ENGINE_BINARY_PATH_def
        EMBEDDED_PYTHON_PATH_def COMMS_API_SCRIPT_PATH_def MANAGEMENT_API_SCRIPT_PATH_def)
  have f: "failed (popen ?e (snd (daemons ?e False ''info'' ! 1))) \<and>
           (\<forall>j < 1. \<not> failed (popen ?e (snd (daemons ?e False ''info'' ! j))))"
    unfolding ds by simp
  have one: "(1::nat) < 3" by simp
  have s3: "str_int 3 = ''3''"
    by (simp add: str_int_def str_nat.simps digit_def)
  from start_daemons_order [OF lvl, of False empty_world, THEN conjunct2, THEN conjunct1,
      rule_format, OF one f]
  have "fst (start_daemons ?e False empty_world) =
          Raise (WazuhDaemonError ''Error starting wazuh-comms-apid: return code 3'') \<and>
        launched (trace (snd (start_daemons ?e False empty_world))) =
          [[''/usr/share/wazuh-server/bin/wazuh-engine'', ''server'', ''-l'', ''info'', ''start''],
           [''/usr/share/wazuh-server/framework/python/bin/python3'',
            ''/usr/share/wazuh-server/apis/scripts/wazuh_comms_apid.py'']]"
    unfolding ds by (simp add: s3 empty_world_def launched_def)
  with lvl show ?thesis by blast
qed

subsection \<open>The worker loop\<close>

lemma emit_trace_eq: "emit ev w = w\<lparr>trace := trace w @ [ev]\<rparr>"
  by (simp add: emit_def)


lemma start_daemon_not_cancelled: "fst (start_daemon e name args w) \<noteq> Raise CancelledError"
  by (simp add: start_daemon_fst)

lemma start_daemon_not_hang: "fst (start_daemon e name args w) \<noteq> Hang"
  by (simp add: start_daemon_fst)

lemma start_each_not_cancelled:
  "fst (start_each e ds w) \<noteq> Raise CancelledError \<and> fst (start_each e ds w) \<noteq> Hang"
proof (induction ds arbitrary: w)
  case Nil
  show ?case by simp
next
  case (Cons d ds)
  obtain name args where d: "d = (name, args)" by (cases d)
  obtain r w' where s: "start_daemon e name args w = (r, w')"
    by (cases "start_daemon e name args w")
  from start_daemon_not_cancelled [of e name args w] start_daemon_not_hang [of e name args w] s
  have "r \<noteq> Raise CancelledError" "r \<noteq> Hang" by simp_all
  with d s Cons.IH [of w'] show ?case by (cases r) simp_all
qed

lemma start_daemons_not_cancelled:
  "fst (start_daemons e rt w) \<noteq> Raise CancelledError \<and> fst (start_daemons e rt w) \<noteq> Hang"
  using start_each_not_cancelled
  by (simp add: start_daemons_def Let_def split: option.splits)

lemma worker_loop_initialized:
  "worker_loop e cfg hp aws True w =
     (case fatal aws of None \<Rightarrow> Hang | Some x \<Rightarrow> Raise x,
      w\<lparr>trace := trace w @ loop_events cfg hp aws\<rparr>)"
proof (induction aws arbitrary: w)
  case Nil
  show ?case
    by (subst worker_loop.simps)
       (simp add: worker_try_def gather_def emit_def iteration_events_def)
next
  case (Cons a aws)
  show ?case
  proof (cases a)
    case Completes
    then show ?thesis
      by (subst worker_loop.simps)
         (simp add: worker_try_def gather_def emit_def iteration_events_def Cons.IH)
  next
    case (Fails x)
    then show ?thesis
      by (subst worker_loop.simps)
         (simp add: worker_try_def gather_def emit_def info_def iteration_events_def Cons.IH)
  qed
qed

lemma loop_events_split:
  "loop_events cfg hp aws =
     iteration_events hp @ drop (length (iteration_events hp)) (loop_events cfg hp aws)"
proof (cases aws)
  case Nil
  then show ?thesis by simp
next
  case (Cons a rest)
  then show ?thesis by (cases a) simp_all
qed

lemma worker_loop_first:
  "worker_loop e cfg hp aws False w =
     (case start_daemons e (root e) (w\<lparr>trace := trace w @ iteration_events hp\<rparr>) of
        (Return u, w1) \<Rightarrow>
          (case fatal aws of None \<Rightarrow> Hang | Some x \<Rightarrow> Raise x,
           w1\<lparr>trace := trace w1 @ drop (length (iteration_events hp)) (loop_events cfg hp aws)\<rparr>)
      | (Raise x, w1) \<Rightarrow> (Raise x, w1)
      | (Hang, w1) \<Rightarrow> (Hang, w1))"
proof -
  let ?w2 = "w\<lparr>trace := trace w @ iteration_events hp\<rparr>"
  have w2: "(if hp then emit PoolMap (emit NewLocalServerWorker (emit NewWorker w))
            else emit NewLocalServerWorker (emit NewWorker w)) = ?w2"
    by (simp add: emit_def iteration_events_def)
  obtain r w1 where sd: "start_daemons e (root e) ?w2 = (r, w1)"
    by (cases "start_daemons e (root e) ?w2")
  from start_daemons_not_cancelled [of e "root e" ?w2] sd
  have ne: "r \<noteq> Raise CancelledError" "r \<noteq> Hang" by simp_all
  show ?thesis
  proof (cases r)
    case (Return u)
    show ?thesis
    proof (cases aws)
      case Nil
      with Return sd show ?thesis
        unfolding worker_loop.simps [of e cfg hp aws False w] Let_def w2
        by (simp add: worker_try_def gather_def emit_def)
    next
      case (Cons a rest)
      show ?thesis
      proof (cases a)
        case Completes
        with Cons Return sd show ?thesis
          unfolding worker_loop.simps [of e cfg hp aws False w] Let_def w2
          by (simp add: worker_try_def gather_def emit_def worker_loop_initialized)
      next
        case (Fails x)
        with Cons Return sd show ?thesis
          unfolding worker_loop.simps [of e cfg hp aws False w] Let_def w2
          by (simp add: worker_try_def gather_def emit_def info_def worker_loop_initialized)
      qed
    qed
  next
    case (Raise x)
    with ne have "x \<noteq> CancelledError" by simp
    with Raise sd show ?thesis
      unfolding worker_loop.simps [of e cfg hp aws False w] Let_def w2
      by (simp add: worker_try_def)
  next
    case Hang
    with ne show ?thesis by simp
  qed
qed

lemma count_list_app: "count_list (xs @ ys) x = count_list xs x + count_list ys x"
  by (induction xs) simp_all

lemma quiet_events:
  assumes "\<forall>ev \<in> set evs. (\<exists>l m. ev = Log l m) \<or> (\<exists>a. ev = Popen a) \<or> (\<exists>n p. ev = CreatePid n p)"
  shows "calls evs = [] \<and> sleeps evs = [] \<and> kills evs = [] \<and>
         count_list evs Ping = 0 \<and> count_list evs NewWorker = 0"
  using assms by (induction evs) (auto simp: calls_def sleeps_def kills_def)

lemma start_daemon_events:
  "\<exists>evs. trace (snd (start_daemon e name args w)) = trace w @ evs \<and>
     (\<forall>ev \<in> set evs. (\<exists>l m. ev = Log l m) \<or> (\<exists>a. ev = Popen a) \<or> (\<exists>n p. ev = CreatePid n p))"
  by (auto simp: start_daemon_trace split: popen_outcome.splits)

lemma start_each_events:
  "\<exists>evs. trace (snd (start_each e ds w)) = trace w @ evs \<and>
     (\<forall>ev \<in> set evs. (\<exists>l m. ev = Log l m) \<or> (\<exists>a. ev = Popen a) \<or> (\<exists>n p. ev = CreatePid n p))"
proof (induction ds arbitrary: w)
  case Nil
  show ?case by simp
next
  case (Cons d ds)
  obtain name args where d: "d = (name, args)" by (cases d)
  obtain r w' where s: "start_daemon e name args w = (r, w')"
    by (cases "start_daemon e name args w")
  from start_daemon_events [of e name args w] s obtain evs1 where
    e1: "trace w' = trace w @ evs1"
      "\<forall>ev \<in> set evs1. (\<exists>l m. ev = Log l m) \<or> (\<exists>a. ev = Popen a) \<or> (\<exists>n p. ev = CreatePid n p)"
    by auto
  show ?case
  proof (cases r)
    case (Return u)
    from Cons.IH [of w'] obtain evs2 where
      e2: "trace (snd (start_each e ds w')) = trace w' @ evs2"
        "\<forall>ev \<in> set evs2. (\<exists>l m. ev = Log l m) \<or> (\<exists>a. ev = Popen a) \<or> (\<exists>n p. ev = CreatePid n p)"
      by auto
    have "trace (snd (start_each e (d # ds) w)) = trace w @ (evs1 @ evs2)"
      using d s Return e1(1) e2(1) by simp
    moreover have "\<forall>ev \<in> set (evs1 @ evs2).
        (\<exists>l m. ev = Log l m) \<or> (\<exists>a. ev = Popen a) \<or> (\<exists>n p. ev = CreatePid n p)"
      using e1(2) e2(2) by auto
    ultimately show ?thesis by blast
  next
    case (Raise x)
    with d s e1 show ?thesis by auto
  next
    case Hang
    with d s e1 show ?thesis by auto
  qed
qed

lemma start_daemons_events:
  "\<exists>evs. trace (snd (start_daemons e rt w)) = trace w @ Call ''start_daemons'' # evs \<and>
     (\<forall>ev \<in> set evs. (\<exists>l m. ev = Log l m) \<or> (\<exists>a. ev = Popen a) \<or> (\<exists>n p. ev = CreatePid n p))"
proof (cases "engine_log_level (debug_mode e)")
  case None
  then show ?thesis by (simp add: start_daemons_def emit_def)
next
  case (Some lvl)
  from start_each_events [of e "daemons e rt lvl" "emit (Call ''start_daemons'') w"] Some
  show ?thesis by (simp add: start_daemons_def emit_def)
qed

lemma start_daemons_calls:
  "calls (trace (snd (start_daemons e rt w))) = calls (trace w) @ [''start_daemons'']"
proof -
  from start_daemons_events [of e rt w] obtain evs where
    t: "trace (snd (start_daemons e rt w)) = trace w @ Call ''start_daemons'' # evs"
    and q: "\<forall>ev \<in> set evs. (\<exists>l m. ev = Log l m) \<or> (\<exists>a. ev = Popen a) \<or> (\<exists>n p. ev = CreatePid n p)"
    by blast
  from quiet_events [OF q] have "calls evs = []" by simp
  with t show ?thesis by (simp add: calls_def)
qed

lemma start_daemons_quiet:
  "sleeps (trace (snd (start_daemons e rt w))) = sleeps (trace w) \<and>
   kills (trace (snd (start_daemons e rt w))) = kills (trace w) \<and>
   count_list (trace (snd (start_daemons e rt w))) Ping = count_list (trace w) Ping \<and>
   count_list (trace (snd (start_daemons e rt w))) NewWorker = count_list (trace w) NewWorker"
proof -
  from start_daemons_events [of e rt w] obtain evs where
    t: "trace (snd (start_daemons e rt w)) = trace w @ Call ''start_daemons'' # evs"
    and q: "\<forall>ev \<in> set evs. (\<exists>l m. ev = Log l m) \<or> (\<exists>a. ev = Popen a) \<or> (\<exists>n p. ev = CreatePid n p)"
    by blast
  from quiet_events [OF q] t show ?thesis
    by (simp add: sleeps_def kills_def count_list_app)
qed

lemma iteration_events_read:
  "calls (iteration_events hp) = [] \<and> sleeps (iteration_events hp) = [] \<and>
   count_list (iteration_events hp) Ping = 0 \<and> count_list (iteration_events hp) NewWorker = 1"
  by (simp add: iteration_events_def calls_def sleeps_def)

lemma loop_events_calls: "calls (loop_events cfg hp aws) = []"
  by (induction cfg hp aws rule: loop_events.induct)
     (simp_all add: calls_append iteration_events_read, simp_all add: calls_def)

lemma loop_events_pings: "count_list (loop_events cfg hp aws) Ping = 0"
  by (induction cfg hp aws rule: loop_events.induct)
     (simp_all add: count_list_app iteration_events_read)

lemma loop_events_sleeps:
  "sleeps (loop_events cfg hp aws) = replicate (retries aws) (connection_retry cfg)"
  by (induction cfg hp aws rule: loop_events.induct)
     (simp_all add: sleeps_append iteration_events_read, simp_all add: sleeps_def)

lemma loop_events_rounds: "count_list (loop_events cfg hp aws) NewWorker = rounds aws"
  by (induction cfg hp aws rule: loop_events.induct)
     (simp_all add: count_list_app iteration_events_read)

lemma loop_events_rest:
  "calls (drop (length (iteration_events hp)) (loop_events cfg hp aws)) = [] \<and>
   sleeps (drop (length (iteration_events hp)) (loop_events cfg hp aws)) =
     replicate (retries aws) (connection_retry cfg) \<and>
   count_list (drop (length (iteration_events hp)) (loop_events cfg hp aws)) Ping = 0 \<and>
   Suc (count_list (drop (length (iteration_events hp)) (loop_events cfg hp aws)) NewWorker) =
     rounds aws"
proof -
  let ?r = "drop (length (iteration_events hp)) (loop_events cfg hp aws)"
  have sp: "loop_events cfg hp aws = iteration_events hp @ ?r" by (rule loop_events_split)
  have "calls (loop_events cfg hp aws) = calls (iteration_events hp) @ calls ?r"
    by (subst sp) (rule calls_append)
  then have c: "calls ?r = []" by (simp add: loop_events_calls iteration_events_read)
  have "sleeps (loop_events cfg hp aws) = sleeps (iteration_events hp) @ sleeps ?r"
    by (subst sp) (rule sleeps_append)
  then have s: "sleeps ?r = replicate (retries aws) (connection_retry cfg)"
    by (simp add: loop_events_sleeps iteration_events_read)
  have "count_list (loop_events cfg hp aws) Ping =
          count_list (iteration_events hp) Ping + count_list ?r Ping"
    by (subst sp) (rule count_list_app)
  then have p: "count_list ?r Ping = 0" by (simp add: loop_events_pings)
  have "count_list (loop_events cfg hp aws) NewWorker =
          count_list (iteration_events hp) NewWorker + count_list ?r NewWorker"
    by (subst sp) (rule count_list_app)
  then have n: "Suc (count_list ?r NewWorker) = rounds aws"
    by (simp add: loop_events_rounds iteration_events_read)
  from c s p n show ?thesis by simp
qed

lemma calls_emit: "calls (trace (emit ev w)) = calls (trace w) @ called ev"
  by (simp add: emit_def calls_def)

lemma count_emit:
  "count_list (trace (emit ev w)) x = count_list (trace w) x + (if ev = x then 1 else 0)"
  by (simp add: emit_def count_list_app)

lemma wait_config_server_read:
  "calls (trace (snd (wait_config_server ps w))) = calls (trace w) \<and>
   count_list (trace (snd (wait_config_server ps w))) Ping =
     count_list (trace w) Ping + min (length ps) (Suc (length (takeWhile Not ps)))"
  by (induction ps arbitrary: w)
     (simp_all add: emit_def info_def calls_def count_list_app)

lemma worker_loop_read:
  "calls (trace (snd (worker_loop e cfg hp aws di w))) =
     calls (trace w) @ (if di then [] else [''start_daemons'']) \<and>
   count_list (trace (snd (worker_loop e cfg hp aws di w))) Ping = count_list (trace w) Ping"
proof (cases di)
  case True
  then show ?thesis
    by (simp add: worker_loop_initialized calls_append loop_events_calls count_list_app
        loop_events_pings)
next
  case False
  let ?w2 = "w\<lparr>trace := trace w @ iteration_events hp\<rparr>"
  obtain r w1 where sd: "start_daemons e (root e) ?w2 = (r, w1)"
    by (cases "start_daemons e (root e) ?w2")
  from start_daemons_calls [of e "root e" ?w2] start_daemons_quiet [of e "root e" ?w2] sd
  have c: "calls (trace w1) = calls (trace w) @ [''start_daemons'']"
    and p: "count_list (trace w1) Ping = count_list (trace w) Ping"
    by (simp_all add: calls_append count_list_app iteration_events_read)
  from False sd c p show ?thesis
    by (cases r)
       (simp_all add: worker_loop_first calls_append count_list_app loop_events_rest)
qed

text \<open>
  Claim C5.  Whatever the script of awaits (however many connection losses), the worker's
  retry loop entered with \<open>daemons_initialized = False\<close> enters \<^verbatim>\<open>start_daemons\<close> exactly
  once, on its first iteration, and a loop whose flag is already set never enters it; so
  \<^verbatim>\<open>worker_main\<close> enters \<^verbatim>\<open>start_daemons\<close> at most once.
\<close>

theorem worker_loop_starts_daemons_once:
  "calls (trace (snd (worker_loop e cfg hp aws False w))) = calls (trace w) @ [''start_daemons''] \<and>
   calls (trace (snd (worker_loop e cfg hp aws True w))) = calls (trace w) \<and>
   count_list (calls (trace (snd (worker_main e cfg w)))) ''start_daemons'' \<le>
     Suc (count_list (calls (trace w)) ''start_daemons'')"
proof -
  have loop: "calls (trace (snd (worker_loop e cfg hp aws di v))) =
     calls (trace v) @ (if di then [] else [''start_daemons''])" for hp aws di v
    using worker_loop_read [of e cfg hp aws di v] by simp
  let ?w0 = "emit (StartUnixServer ''Worker'') (emit (ContextTag ''Worker'') w)"
  obtain r w1 where wc: "wait_config_server (pings e) ?w0 = (r, w1)"
    by (cases "wait_config_server (pings e) ?w0")
  from wait_config_server_read [of "pings e" ?w0] wc
  have c1: "calls (trace w1) = calls (trace w)"
    by (simp add: calls_emit)
  have "count_list (calls (trace (snd (worker_main e cfg w)))) ''start_daemons'' \<le>
     Suc (count_list (calls (trace w)) ''start_daemons'')"
    using wc c1
    by (cases r)
       (auto simp: worker_main_def loop warning_def calls_emit count_list_app
          split: option.splits)
  with loop [of hp aws False w] loop [of hp aws True w] show ?thesis by simp
qed

text \<open>
  Claim C2, as amended.  The readiness probe is not part of the retry loop: no iteration
  of the loop pings the configuration socket, whatever the awaits do.  \<^verbatim>\<open>worker_main\<close> polls
  only before the loop, until the first answer (one ping more than the failed answers, or
  all the answers when none succeeds), a number that does not depend on the connection
  losses.
\<close>

theorem worker_probe_once:
  "count_list (trace (snd (worker_loop e cfg hp aws di w))) Ping = count_list (trace w) Ping \<and>
   count_list (trace (snd (worker_main e cfg w))) Ping =
     count_list (trace w) Ping + min (length (pings e)) (Suc (length (takeWhile Not (pings e))))"
proof -
  have loop: "count_list (trace (snd (worker_loop e cfg hp aws di v))) Ping =
     count_list (trace v) Ping" for hp aws di v
    using worker_loop_read [of e cfg hp aws di v] by simp
  let ?w0 = "emit (StartUnixServer ''Worker'') (emit (ContextTag ''Worker'') w)"
  obtain r w1 where wc: "wait_config_server (pings e) ?w0 = (r, w1)"
    by (cases "wait_config_server (pings e) ?w0")
  from wait_config_server_read [of "pings e" ?w0] wc
  have p1: "count_list (trace w1) Ping =
      count_list (trace w) Ping + min (length (pings e)) (Suc (length (takeWhile Not (pings e))))"
    by (simp add: count_emit)
  have "count_list (trace (snd (worker_main e cfg w))) Ping =
     count_list (trace w) Ping + min (length (pings e)) (Suc (length (takeWhile Not (pings e))))"
    using wc p1
    by (cases r)
       (auto simp: worker_main_def loop warning_def count_emit split: option.splits)
  with loop [of hp aws di w] show ?thesis by simp
qed




theorem worker_loop_starts_daemons_once_witness:
  "calls (trace (snd (worker_loop good_env worker_config True
        [Fails CancelledError, Fails CancelledError] False empty_world))) = [''start_daemons'']"
  using worker_loop_starts_daemons_once [of good_env worker_config True
      "[Fails CancelledError, Fails CancelledError]" empty_world]
  by (simp add: empty_world_def calls_def)

theorem worker_probe_once_witness:
  "count_list (trace (snd (worker_main (good_env\<lparr>awaits := [Fails CancelledError]\<rparr>)
        worker_config empty_world))) Ping = 1"
  using worker_probe_once [of "good_env\<lparr>awaits := [Fails CancelledError]\<rparr>" worker_config
      True "[]" True empty_world]
  by (simp add: empty_world_def good_env_def)

lemma good_env_starts:
  "fst (start_daemons (good_env\<lparr>awaits := aws\<rparr>) False v) = Return ()"
proof -
  have "engine_log_level (debug_mode (good_env\<lparr>awaits := aws\<rparr>)) = Some ''info''"
    by (simp add: good_env_def engine_log_level_def)
  moreover have "\<forall>d \<in> set (daemons (good_env\<lparr>awaits := aws\<rparr>) False ''info'').
      \<not> failed (popen (good_env\<lparr>awaits := aws\<rparr>) (snd d))"
    by (simp add: good_env_def)
  ultimately show ?thesis
    using start_each_all_started [of "daemons (good_env\<lparr>awaits := aws\<rparr>) False ''info''"
        "good_env\<lparr>awaits := aws\<rparr>" "emit (Call ''start_daemons'') v"]
    by (simp add: start_daemons_def)
qed

text \<open>
  Claim C2, as stated, fails: with one connection loss the loop makes two iterations (two
  workers are constructed) and the configuration socket is pinged once, before the first.
\<close>

theorem worker_probe_counterexample:
  "count_list (trace (snd (worker_main (good_env\<lparr>awaits := [Fails CancelledError]\<rparr>)
        worker_config empty_world))) NewWorker = 2 \<and>
   count_list (trace (snd (worker_main (good_env\<lparr>awaits := [Fails CancelledError]\<rparr>)
        worker_config empty_world))) Ping = 1"
proof -
  let ?e = "good_env\<lparr>awaits := [Fails CancelledError]\<rparr>"
  let ?w1 = "\<lparr>trace = [ContextTag ''Worker'', StartUnixServer ''Worker'', Ping, NewPool],
              pid_files = [], alive = []\<rparr>"
  have m: "worker_main ?e worker_config empty_world =
      worker_loop ?e worker_config True [Fails CancelledError] False ?w1"
    by (simp add: worker_main_def good_env_def empty_world_def emit_def)
  let ?w2 = "?w1\<lparr>trace := trace ?w1 @ iteration_events True\<rparr>"
  obtain r v where sd: "start_daemons ?e (root ?e) ?w2 = (r, v)"
    by (cases "start_daemons ?e (root ?e) ?w2")
  have rt: "root ?e = False" by (simp add: good_env_def)
  from good_env_starts [of "[Fails CancelledError]" ?w2] sd rt have r: "r = Return ()" by simp
  from start_daemons_quiet [of ?e "root ?e" ?w2] sd
  have p: "count_list (trace v) Ping = 1" and n: "count_list (trace v) NewWorker = 1"
    by (simp_all add: iteration_events_def)
  from loop_events_rest [of True worker_config "[Fails CancelledError]"]
  have rest: "count_list (drop (length (iteration_events True))
        (loop_events worker_config True [Fails CancelledError])) Ping = 0"
    "count_list (drop (length (iteration_events True))
        (loop_events worker_config True [Fails CancelledError])) NewWorker = 1"
    by simp_all
  from sd r p n rest show ?thesis
    unfolding m worker_loop_first by (simp add: count_list_app)
qed

subsection \<open>Shutdown, stop and status\<close>


























subsection \<open>The start command and the exit code\<close>
















end
